theory Spec2Isabelle
  imports Main "HOL-Library.Log_Nat"
begin

section \<open>The availability prober of pricingapp.py\<close>

text \<open>
  The network is the environment of the program. \<open>requests.get(url, headers=..., timeout=10)\<close>
  either returns a response, of which the program reads only \<open>status_code\<close>, or raises.
  The answer of the network to a request is a parameter \<open>net\<close> of the model, a function from
  the URL requested to the outcome of that request; the headers and the timeout are constants of
  the program and do not appear. One search requests three URLs that differ, so every request
  of a search has an answer of its own. The requests issued are recorded in a list of URLs
  that every function takes and returns.
\<close>

datatype transport_failure = Timeout | DNSFailure | ConnectionError | OtherException

datatype http_outcome = Response int | Raises transport_failure

datatype py_exception = KeyError string

record probe_result =
  Retailer :: string
  URL :: string
  Status :: string

type_synonym network = "string \<Rightarrow> http_outcome"

definition requests_get :: "network \<Rightarrow> string \<Rightarrow> string list \<Rightarrow> http_outcome \<times> string list" where
  "requests_get net url reqs = (net url, reqs @ [url])"

text \<open>The dictionary \<open>retailers\<close> of \<open>search_retailer\<close>, its three f-strings filled with \<open>sku\<close>.\<close>

definition retailers :: "string \<Rightarrow> (string \<times> string) list" where
  "retailers sku =
     [(''Amazon'', ''https://www.amazon.com/s?k='' @ sku),
      (''Walmart'', ''https://www.walmart.com/search?q='' @ sku),
      (''Best Buy'', ''https://www.bestbuy.com/site/searchpage.jsp?st='' @ sku)]"

text \<open>
  \<open>search_retailer\<close>. A retailer that is not a key of the dictionary raises \<open>KeyError\<close> inside
  the \<open>try\<close>; the handler looks the same key up again and the second \<open>KeyError\<close> leaves the
  function, before any request. A response whose status code is not 200 falls out of the \<open>if\<close>
  and the function returns \<open>None\<close>. Any exception of the request gives the error result.
\<close>

definition search_retailer ::
  "network \<Rightarrow> string \<Rightarrow> string \<Rightarrow> string list \<Rightarrow> (py_exception + probe_result option) \<times> string list" where
  "search_retailer net retailer sku reqs =
     (case map_of (retailers sku) retailer of
        None \<Rightarrow> (Inl (KeyError retailer), reqs)
      | Some url \<Rightarrow>
          (case requests_get net url reqs of
             (Response status_code, reqs') \<Rightarrow>
               (if status_code = 200
                then (Inr (Some \<lparr>Retailer = retailer, URL = url, Status = ''Available''\<rparr>), reqs')
                else (Inr None, reqs'))
           | (Raises e, reqs') \<Rightarrow>
               (Inr (Some \<lparr>Retailer = retailer, URL = url,
                            Status = ''Error checking availability''\<rparr>), reqs')))"

text \<open>
  \<open>search_all_retailers\<close>. The list comprehension submits one task per retailer, in the order
  of the list; the loop then takes the result of each future in that same order. The tasks run
  concurrently on three workers; the model runs them in submission order, which decides only
  the order of that list, since \<open>net\<close> answers a request from its URL alone and a task neither
  reads nor writes anything another task touches. \<open>future.result()\<close> raises what its task
  raised, which ends the loop.
\<close>

fun submit_all ::
  "network \<Rightarrow> string list \<Rightarrow> string \<Rightarrow> string list \<Rightarrow>
   (py_exception + probe_result option) list \<times> string list" where
  "submit_all net [] sku reqs = ([], reqs)"
| "submit_all net (retailer # rest) sku reqs =
     (case search_retailer net retailer sku reqs of
        (future, reqs') \<Rightarrow>
          (case submit_all net rest sku reqs' of
             (futures, reqs'') \<Rightarrow> (future # futures, reqs'')))"

fun collect_results ::
  "(py_exception + probe_result option) list \<Rightarrow> probe_result list \<Rightarrow>
   py_exception + probe_result list" where
  "collect_results [] results = Inr results"
| "collect_results (future # futures) results =
     (case future of
        Inl e \<Rightarrow> Inl e
      | Inr None \<Rightarrow> collect_results futures results
      | Inr (Some result) \<Rightarrow> collect_results futures (results @ [result]))"

definition retailer_names :: "string list" where
  "retailer_names = [''Amazon'', ''Walmart'', ''Best Buy'']"

definition search_all_retailers ::
  "network \<Rightarrow> string \<Rightarrow> string list \<Rightarrow> (py_exception + probe_result list) \<times> string list" where
  "search_all_retailers net sku reqs =
     (case submit_all net retailer_names sku reqs of
        (futures, reqs') \<Rightarrow> (collect_results futures [], reqs'))"

subsection \<open>The handler of the button Search Prices\<close>

text \<open>
  What the page shows is a list of the Streamlit calls made, in order. The spinner, the
  containers and the columns only lay the page out and are left out. The handler reads
  \<open>sku_input\<close>; the selection \<open>retailers_to_search\<close> of the multiselect is in scope as well.
  An exception that leaves \<open>search_all_retailers\<close> leaves the handler too.
\<close>

datatype ui_event =
    St_success string
  | St_markdown string
  | St_write string
  | St_info string
  | St_warning string
  | St_error string

fun show_results :: "probe_result list \<Rightarrow> ui_event list" where
  "show_results [] = []"
| "show_results (result # rest) =
     [St_write (''**'' @ Retailer result @ ''** - '' @ Status result),
      St_markdown (''[View Product]('' @ URL result @ '')''),
      St_markdown ''---''] @ show_results rest"

definition search_prices ::
  "bool \<Rightarrow> network \<Rightarrow> string \<Rightarrow> string list \<Rightarrow> string list \<Rightarrow>
   (py_exception + ui_event list) \<times> string list" where
  "search_prices clicked net sku_input retailers_to_search reqs =
     (if clicked then
        (if sku_input \<noteq> [] then
           (case search_all_retailers net sku_input reqs of
              (Inl e, reqs') \<Rightarrow> (Inl e, reqs')
            | (Inr results, reqs') \<Rightarrow>
                (if results \<noteq> [] then
                   (Inr ([St_success (''Found product listings for SKU: '' @ sku_input),
                          St_markdown ''### Available at:''] @
                         show_results results @
                         [St_info ''Note: Due to retailer restrictions, exact prices are not shown. Click the links to view current prices on each website.'']),
                    reqs')
                 else
                   (Inr [St_warning ''No results found for this SKU. Try another SKU number.''],
                    reqs')))
         else (Inr [St_error ''Please enter a SKU number''], reqs))
      else (Inr [], reqs))"

subsection \<open>Status codes\<close>

text \<open>
  The program compares the status code with 200. The specification speaks of the success class
  of status codes, which in HTTP is the range from 200 to 299; this predicate follows the
  specification's words and is compared with the program's test below.
\<close>

definition success_class :: "int \<Rightarrow> bool" where
  "success_class status_code = (200 \<le> status_code \<and> status_code < 300)"

section \<open>The product ledger of pricingapp.py\<close>

subsection \<open>Python floats\<close>

text \<open>
  The two prices are the values of \<open>st.number_input(..., min_value=0.0)\<close>: finite IEEE 754
  binary64 numbers that are not negative. A float is modelled by the rational number it stands
  for (minus zero is zero). \<open>to_double\<close> rounds a rational to the nearest binary64 number, ties
  to the even significand: 53 bits of precision, the exponent of the last bit never below
  \<open>-1074\<close>. It does not model overflow to infinity, which the difference of two finite floats
  that are not negative, and its rounding to two decimals, cannot reach.
\<close>

definition round_half_even :: "rat \<Rightarrow> int" where
  "round_half_even q =
     (let f = \<lfloor>q\<rfloor>; r = q - of_int f in
      if r < 1 / 2 then f else if 1 / 2 < r then f + 1 else if even f then f else f + 1)"

text \<open>\<open>ilog2 q\<close> is the integer \<open>e\<close> with \<open>2 powi e \<le> q < 2 powi (e + 1)\<close>, for \<open>0 < q\<close>.\<close>

definition ilog2 :: "rat \<Rightarrow> int" where
  "ilog2 q =
     (case quotient_of q of
        (p, d) \<Rightarrow> (let e = bitlen p - bitlen d in if 2 powi e \<le> q then e else e - 1))"

definition to_double :: "rat \<Rightarrow> rat" where
  "to_double q =
     (if q = 0 then 0
      else (let e = max (ilog2 \<bar>q\<bar> - 52) (- 1074)
            in of_int (round_half_even (q / 2 powi e)) * 2 powi e))"

text \<open>\<open>a - b\<close> on floats: the exact difference, rounded once.\<close>

definition float_sub :: "rat \<Rightarrow> rat \<Rightarrow> rat" where
  "float_sub a b = to_double (a - b)"

text \<open>
  \<open>round(x, ndigits)\<close> on a float, for the \<open>ndigits \<ge> 0\<close> that CPython rounds through a decimal
  string: the exact value of \<open>x\<close> is rounded to \<open>ndigits\<close> decimals, ties to the even digit, and
  the decimal is read back as the nearest float.
\<close>

definition py_round :: "rat \<Rightarrow> nat \<Rightarrow> rat" where
  "py_round x ndigits = to_double (of_int (round_half_even (x * 10 ^ ndigits)) / 10 ^ ndigits)"

subsection \<open>The ledger and the handler of the button Add Product\<close>

text \<open>
  \<open>st.session_state.products\<close> is a data frame with seven columns; the model keeps its rows, in
  order, as a list of records, one field per column. \<open>pd.concat([products, DataFrame([new])],
  ignore_index=True)\<close> is the list with the new row appended and renumbered from zero. The date
  \<open>datetime.now().strftime("%Y-%m-%d")\<close> is read from the clock and is a parameter \<open>today\<close>.
\<close>

record product =
  Product_Name :: string
  SKU :: string
  Your_Price :: rat
  Competitor :: string
  Competitor_Price :: rat
  Price_Difference :: rat
  Date_Added :: string

definition new_product :: "string \<Rightarrow> string \<Rightarrow> rat \<Rightarrow> string \<Rightarrow> rat \<Rightarrow> string \<Rightarrow> product" where
  "new_product product_name sku your_price competitor competitor_price today =
     \<lparr>Product_Name = product_name,
      SKU = sku,
      Your_Price = your_price,
      Competitor = competitor,
      Competitor_Price = competitor_price,
      Price_Difference = py_round (float_sub your_price competitor_price) 2,
      Date_Added = today\<rparr>"

definition add_product ::
  "bool \<Rightarrow> string \<Rightarrow> string \<Rightarrow> rat \<Rightarrow> string \<Rightarrow> rat \<Rightarrow> string \<Rightarrow> product list \<Rightarrow>
   product list \<times> ui_event list" where
  "add_product clicked product_name sku your_price competitor competitor_price today products =
     (if clicked then
        (if product_name \<noteq> [] \<and> competitor \<noteq> [] then
           (products @
              [new_product product_name sku your_price competitor competitor_price today],
            [St_success ''Product added successfully!''])
         else (products, []))
      else (products, []))"

text \<open>
  Every click reruns the script on the session state the run before left. A sequence of clicks
  on Add Product, each with the values the sidebar holds at that click, is a list of calls.
\<close>

record add_call =
  arg_product_name :: string
  arg_sku :: string
  arg_your_price :: rat
  arg_competitor :: string
  arg_competitor_price :: rat
  arg_today :: string

definition add_call_valid :: "add_call \<Rightarrow> bool" where
  "add_call_valid c = (arg_product_name c \<noteq> [] \<and> arg_competitor c \<noteq> [])"

definition product_of_call :: "add_call \<Rightarrow> product" where
  "product_of_call c =
     new_product (arg_product_name c) (arg_sku c) (arg_your_price c) (arg_competitor c)
       (arg_competitor_price c) (arg_today c)"

fun add_products :: "add_call list \<Rightarrow> product list \<Rightarrow> product list" where
  "add_products [] products = products"
| "add_products (c # cs) products =
     add_products cs
       (fst (add_product True (arg_product_name c) (arg_sku c) (arg_your_price c)
               (arg_competitor c) (arg_competitor_price c) (arg_today c) products))"

subsection \<open>The export\<close>

text \<open>
  The download button is there when the ledger is not empty; its data is
  \<open>products.to_csv(index=False)\<close>: a header row with the column names, then one row per
  record, the fields in column order. A cell is a string or a float; how pandas writes a cell
  as text is not part of the program and is not modelled.
\<close>

datatype csv_cell = Text string | Number rat

definition csv_header :: "csv_cell list" where
  "csv_header =
     [Text ''Product Name'', Text ''SKU'', Text ''Your Price'', Text ''Competitor'',
      Text ''Competitor Price'', Text ''Price Difference'', Text ''Date Added'']"

definition csv_row :: "product \<Rightarrow> csv_cell list" where
  "csv_row p =
     [Text (Product_Name p), Text (SKU p), Number (Your_Price p), Text (Competitor p),
      Number (Competitor_Price p), Number (Price_Difference p), Text (Date_Added p)]"

definition to_csv :: "product list \<Rightarrow> csv_cell list list" where
  "to_csv products = csv_header # map csv_row products"

definition download_button :: "product list \<Rightarrow> csv_cell list list option" where
  "download_button products = (if products \<noteq> [] then Some (to_csv products) else None)"

section \<open>Concrete inputs\<close>

text \<open>A network that answers every request the same way.\<close>

definition net_all :: "http_outcome \<Rightarrow> network" where
  "net_all outcome url = outcome"

text \<open>A network on which the request to Walmart for W1 times out and every other request is answered 200.\<close>

definition net_walmart_times_out :: network where
  "net_walmart_times_out url =
     (if url = ''https://www.walmart.com/search?q=W1'' then Raises Timeout else Response 200)"

text \<open>The same failure of Walmart, every other request answered with a given status code.\<close>

definition net_walmart_times_out_others :: "int \<Rightarrow> network" where
  "net_walmart_times_out_others status_code url =
     (if url = ''https://www.walmart.com/search?q=W1'' then Raises Timeout
      else Response status_code)"

definition widget_call :: add_call where
  "widget_call =
     \<lparr>arg_product_name = ''Widget'', arg_sku = ''W1'', arg_your_price = to_double (999 / 100),
      arg_competitor = ''ACME'', arg_competitor_price = to_double (1049 / 100),
      arg_today = ''2024-01-15''\<rparr>"

definition gadget_call :: add_call where
  "gadget_call =
     \<lparr>arg_product_name = ''Gadget'', arg_sku = ''W1'', arg_your_price = to_double (3 / 10),
      arg_competitor = ''ACME'', arg_competitor_price = to_double (1 / 10),
      arg_today = ''2024-01-16''\<rparr>"

section \<open>Properties of the prober\<close>

lemma map_of_retailers:
  "map_of (retailers sku) ''Amazon'' = Some (''https://www.amazon.com/s?k='' @ sku)"
  "map_of (retailers sku) ''Walmart'' = Some (''https://www.walmart.com/search?q='' @ sku)"
  "map_of (retailers sku) ''Best Buy'' =
     Some (''https://www.bestbuy.com/site/searchpage.jsp?st='' @ sku)"
  by (simp_all add: retailers_def)

lemma search_retailer_known:
  "map_of (retailers sku) retailer = Some url \<Longrightarrow>
   search_retailer net retailer sku reqs =
     ((case net url of
         Response status_code \<Rightarrow>
           if status_code = 200
           then Inr (Some \<lparr>Retailer = retailer, URL = url, Status = ''Available''\<rparr>)
           else Inr None
       | Raises e \<Rightarrow>
           Inr (Some \<lparr>Retailer = retailer, URL = url,
                       Status = ''Error checking availability''\<rparr>)),
      reqs @ [url])"
  by (simp add: search_retailer_def requests_get_def split: http_outcome.split)

text \<open>
  The three futures of \<open>search_all_retailers\<close>: each is what \<open>search_retailer\<close> returns for its
  own retailer, whatever the other two do, and the three requests are the three URLs.
\<close>

lemma search_all_retailers_unfold:
  "search_all_retailers net sku reqs =
     (collect_results
        [fst (search_retailer net ''Amazon'' sku []),
         fst (search_retailer net ''Walmart'' sku []),
         fst (search_retailer net ''Best Buy'' sku [])] [],
      reqs @ [''https://www.amazon.com/s?k='' @ sku,
              ''https://www.walmart.com/search?q='' @ sku,
              ''https://www.bestbuy.com/site/searchpage.jsp?st='' @ sku])"
  by (simp add: search_all_retailers_def retailer_names_def search_retailer_known
      map_of_retailers)

text \<open>
  Claim C1. When every request fails with a transport failure, \<open>search_all_retailers\<close> returns
  one result per retailer submitted (three), each with the error status, in the order of
  submission: Amazon, Walmart, Best Buy.
\<close>

theorem search_all_retailers_all_fail:
  assumes "\<forall>url. \<exists>e. net url = Raises e"
  shows "fst (search_all_retailers net sku reqs) =
     Inr [\<lparr>Retailer = ''Amazon'', URL = ''https://www.amazon.com/s?k='' @ sku,
            Status = ''Error checking availability''\<rparr>,
          \<lparr>Retailer = ''Walmart'', URL = ''https://www.walmart.com/search?q='' @ sku,
            Status = ''Error checking availability''\<rparr>,
          \<lparr>Retailer = ''Best Buy'',
            URL = ''https://www.bestbuy.com/site/searchpage.jsp?st='' @ sku,
            Status = ''Error checking availability''\<rparr>]"
proof -
  have failing: "fst (search_retailer net retailer sku []) =
      Inr (Some \<lparr>Retailer = retailer, URL = url, Status = ''Error checking availability''\<rparr>)"
    if known: "map_of (retailers sku) retailer = Some url" for retailer url
  proof -
    from assms obtain e where "net url = Raises e" by blast
    then show ?thesis by (simp add: search_retailer_known [OF known])
  qed
  show ?thesis
    by (simp add: search_all_retailers_unfold failing map_of_retailers)
qed

theorem search_all_retailers_all_fail_witness:
  "(\<forall>url. \<exists>e. net_all (Raises Timeout) url = Raises e) \<and>
   fst (search_all_retailers (net_all (Raises Timeout)) ''W1'' []) =
     Inr [\<lparr>Retailer = ''Amazon'', URL = ''https://www.amazon.com/s?k=W1'',
            Status = ''Error checking availability''\<rparr>,
          \<lparr>Retailer = ''Walmart'', URL = ''https://www.walmart.com/search?q=W1'',
            Status = ''Error checking availability''\<rparr>,
          \<lparr>Retailer = ''Best Buy'',
            URL = ''https://www.bestbuy.com/site/searchpage.jsp?st=W1'',
            Status = ''Error checking availability''\<rparr>]"
proof -
  have h: "\<forall>url. \<exists>e. net_all (Raises Timeout) url = Raises e"
    by (simp add: net_all_def)
  show ?thesis
    using h search_all_retailers_all_fail [OF h, of "''W1''" "[]"] by simp
qed

text \<open>
  The two loops of \<open>search_all_retailers\<close> on any list of targets. The future of a target is
  what \<open>search_retailer\<close> returns for that target alone. For \<open>K\<close> targets of the dictionary, in
  any order and with repetitions, requests that all fail give \<open>K\<close> error results in the order
  of submission.
\<close>

lemma fst_search_retailer:
  "fst (search_retailer net retailer sku reqs) = fst (search_retailer net retailer sku [])"
  by (simp add: search_retailer_def requests_get_def split: option.split http_outcome.split)

lemma submit_all_futures:
  "fst (submit_all net targets sku reqs) =
     map (\<lambda>retailer. fst (search_retailer net retailer sku [])) targets"
proof (induction targets arbitrary: reqs)
  case Nil
  show ?case by simp
next
  case (Cons retailer rest)
  show ?case
    using Cons.IH [of "snd (search_retailer net retailer sku reqs)"]
      fst_search_retailer [of net retailer sku reqs]
    by (simp add: case_prod_unfold)
qed

lemma collect_results_append:
  "collect_results (map (\<lambda>r. Inr (Some (f r))) targets) results = Inr (results @ map f targets)"
  by (induction targets arbitrary: results) simp_all

theorem submitted_targets_all_fail:
  assumes "set targets \<subseteq> fst ` set (retailers sku)"
    and "\<forall>url. \<exists>e. net url = Raises e"
  shows "collect_results (fst (submit_all net targets sku reqs)) [] =
     Inr (map (\<lambda>retailer. \<lparr>Retailer = retailer, URL = the (map_of (retailers sku) retailer),
                              Status = ''Error checking availability''\<rparr>) targets)"
proof -
  have "fst (search_retailer net retailer sku []) =
      Inr (Some \<lparr>Retailer = retailer, URL = the (map_of (retailers sku) retailer),
                  Status = ''Error checking availability''\<rparr>)"
    if "retailer \<in> set targets" for retailer
  proof -
    from that assms(1) obtain url where known: "map_of (retailers sku) retailer = Some url"
      by (metis subsetD map_of_eq_None_iff not_None_eq)
    from assms(2) obtain e where "net url = Raises e" by blast
    then show ?thesis by (simp add: search_retailer_known [OF known] known)
  qed
  then have eq: "map (\<lambda>retailer. fst (search_retailer net retailer sku [])) targets =
      map (\<lambda>retailer. Inr (Some \<lparr>Retailer = retailer,
             URL = the (map_of (retailers sku) retailer),
             Status = ''Error checking availability''\<rparr>)) targets"
    by simp
  show ?thesis
    unfolding submit_all_futures eq
    by (rule collect_results_append [where results = "[]", simplified])
qed

theorem submitted_targets_all_fail_witness:
  "set [''Walmart'', ''Amazon''] \<subseteq> fst ` set (retailers ''W1'') \<and>
   (\<forall>url. \<exists>e. net_all (Raises DNSFailure) url = Raises e) \<and>
   collect_results (fst (submit_all (net_all (Raises DNSFailure)) [''Walmart'', ''Amazon'']
      ''W1'' [])) [] =
     Inr [\<lparr>Retailer = ''Walmart'', URL = ''https://www.walmart.com/search?q=W1'',
            Status = ''Error checking availability''\<rparr>,
          \<lparr>Retailer = ''Amazon'', URL = ''https://www.amazon.com/s?k=W1'',
            Status = ''Error checking availability''\<rparr>]"
proof -
  have t: "set [''Walmart'', ''Amazon''] \<subseteq> fst ` set (retailers ''W1'')"
    by (simp add: retailers_def)
  have h: "\<forall>url. \<exists>e. net_all (Raises DNSFailure) url = Raises e"
    by (simp add: net_all_def)
  show ?thesis
    using t h submitted_targets_all_fail [OF t h, of "[]"]
    by (simp add: retailers_def)
qed

lemma collect_results_Inr:
  "collect_results (map Inr outcomes) results = Inr (results @ List.map_filter id outcomes)"
  by (induction outcomes arbitrary: results) (simp_all split: option.split)

lemma retailers_keys:
  "map_of (retailers sku) retailer = Some url \<Longrightarrow>
   (retailer = ''Amazon'' \<and> url = ''https://www.amazon.com/s?k='' @ sku) \<or>
   (retailer = ''Walmart'' \<and> url = ''https://www.walmart.com/search?q='' @ sku) \<or>
   (retailer = ''Best Buy'' \<and> url = ''https://www.bestbuy.com/site/searchpage.jsp?st='' @ sku)"
  by (auto simp: retailers_def split: if_splits)

lemma search_retailer_result:
  assumes "map_of (retailers sku) retailer = Some url"
  shows "\<exists>outcome. fst (search_retailer net retailer sku reqs) = Inr outcome \<and>
           (\<forall>result. outcome = Some result \<longrightarrow> Retailer result = retailer)"
  by (simp add: search_retailer_known [OF assms] split: http_outcome.split)

text \<open>
  Claim C2, as the specification states it, fails: the program asks for the status code 200,
  not for a code of the success class. A response 204 is of the success class and gives no
  result, for the retailer and in the list of \<open>search_all_retailers\<close>.
\<close>

theorem success_class_204_gives_no_result:
  "success_class 204 \<and>
   fst (search_retailer (net_all (Response 204)) ''Amazon'' ''W1'' []) = Inr None \<and>
   fst (search_all_retailers (net_all (Response 204)) ''W1'' []) = Inr []"
  by (simp add: success_class_def search_all_retailers_unfold search_retailer_known
      map_of_retailers net_all_def)

text \<open>
  Claim C2, amended. For a retailer of the dictionary whose request is answered with a status
  code: the code 200 gives the result with status available, which is then in the list of
  \<open>search_all_retailers\<close>; every other code, of the success class or not, gives no result, and
  the list of \<open>search_all_retailers\<close> has no entry for that retailer.
\<close>

theorem search_retailer_status_code:
  assumes known: "map_of (retailers sku) retailer = Some url"
    and resp: "net url = Response status_code"
  shows "fst (search_retailer net retailer sku reqs) =
           Inr (if status_code = 200
                then Some \<lparr>Retailer = retailer, URL = url, Status = ''Available''\<rparr>
                else None) \<and>
         (\<exists>results. fst (search_all_retailers net sku reqs) = Inr results \<and>
            (if status_code = 200
             then \<lparr>Retailer = retailer, URL = url, Status = ''Available''\<rparr> \<in> set results
             else retailer \<notin> Retailer ` set results))"
proof -
  let ?own = "if status_code = 200
              then Some \<lparr>Retailer = retailer, URL = url, Status = ''Available''\<rparr>
              else None"
  have one: "fst (search_retailer net retailer sku rs) = Inr ?own" for rs
    using resp by (simp add: search_retailer_known [OF known])
  obtain oa where oa: "fst (search_retailer net ''Amazon'' sku []) = Inr oa"
    and ra: "\<forall>result. oa = Some result \<longrightarrow> Retailer result = ''Amazon''"
    using search_retailer_result [OF map_of_retailers(1)] by blast
  obtain ow where ow: "fst (search_retailer net ''Walmart'' sku []) = Inr ow"
    and rw: "\<forall>result. ow = Some result \<longrightarrow> Retailer result = ''Walmart''"
    using search_retailer_result [OF map_of_retailers(2)] by blast
  obtain ob where ob: "fst (search_retailer net ''Best Buy'' sku []) = Inr ob"
    and rb: "\<forall>result. ob = Some result \<longrightarrow> Retailer result = ''Best Buy''"
    using search_retailer_result [OF map_of_retailers(3)] by blast
  have all: "fst (search_all_retailers net sku reqs) = Inr (List.map_filter id [oa, ow, ob])"
    using collect_results_Inr [of "[oa, ow, ob]" "[]"]
    by (simp add: search_all_retailers_unfold oa ow ob)
  have mem: "set (List.map_filter id [oa, ow, ob]) = {r. Some r \<in> {oa, ow, ob}}"
    by (auto simp: List.map_filter_def)
  consider "retailer = ''Amazon''" | "retailer = ''Walmart''" | "retailer = ''Best Buy''"
    using retailers_keys [OF known] by blast
  then have "if status_code = 200
             then \<lparr>Retailer = retailer, URL = url, Status = ''Available''\<rparr>
                    \<in> set (List.map_filter id [oa, ow, ob])
             else retailer \<notin> Retailer ` set (List.map_filter id [oa, ow, ob])"
  proof cases
    case 1
    with one [of "[]"] oa have "oa = ?own" by simp
    with 1 rw rb show ?thesis unfolding mem by (auto split: if_splits)
  next
    case 2
    with one [of "[]"] ow have "ow = ?own" by simp
    with 2 ra rb show ?thesis unfolding mem by (auto split: if_splits)
  next
    case 3
    with one [of "[]"] ob have "ob = ?own" by simp
    with 3 ra rw show ?thesis unfolding mem by (auto split: if_splits)
  qed
  with all one [of reqs] show ?thesis by blast
qed

theorem search_retailer_status_code_witness:
  "map_of (retailers ''W1'') ''Walmart'' = Some ''https://www.walmart.com/search?q=W1'' \<and>
   net_all (Response 404) ''https://www.walmart.com/search?q=W1'' = Response 404 \<and>
   fst (search_retailer (net_all (Response 404)) ''Walmart'' ''W1'' []) = Inr None \<and>
   (\<exists>results. fst (search_all_retailers (net_all (Response 404)) ''W1'' []) = Inr results \<and>
      ''Walmart'' \<notin> Retailer ` set results)"
proof -
  have k: "map_of (retailers ''W1'') ''Walmart'' = Some ''https://www.walmart.com/search?q=W1''"
    by (simp add: retailers_def)
  have r: "net_all (Response 404) ''https://www.walmart.com/search?q=W1'' = Response 404"
    by (simp add: net_all_def)
  show ?thesis
    using k r
      search_retailer_status_code [where net = "net_all (Response 404)" and sku = "''W1''"
          and retailer = "''Walmart''" and status_code = 404 and reqs = "[]", OF k r]
    by simp
qed

text \<open>
  Claim C3, as the specification states it, fails: a target that responds successfully is,
  in the specification's words, one answered with a status code of the success class. When
  the request to Walmart times out and Amazon and Best Buy answer 204, the result has one
  entry, the error of Walmart, not three.
\<close>

theorem partial_failure_204_gives_one_result:
  "success_class 204 \<and>
   net_walmart_times_out_others 204 ''https://www.amazon.com/s?k=W1'' = Response 204 \<and>
   net_walmart_times_out_others 204 ''https://www.walmart.com/search?q=W1'' = Raises Timeout \<and>
   net_walmart_times_out_others 204 ''https://www.bestbuy.com/site/searchpage.jsp?st=W1'' =
     Response 204 \<and>
   fst (search_all_retailers (net_walmart_times_out_others 204) ''W1'' []) =
     Inr [\<lparr>Retailer = ''Walmart'', URL = ''https://www.walmart.com/search?q=W1'',
            Status = ''Error checking availability''\<rparr>]"
  by (simp add: success_class_def search_all_retailers_unfold search_retailer_known
      map_of_retailers net_walmart_times_out_others_def)

text \<open>
  Claim C3, amended. When the request to the second retailer fails, the run is not ended: it
  returns a list of results, and the error result of the second retailer is in it, whatever
  the other two requests give. When the first and the third are answered with the status code
  200, the list has exactly three entries, in the order of submission, with the statuses
  available, error, available.
\<close>

theorem search_all_retailers_partial_failure:
  assumes "net (''https://www.walmart.com/search?q='' @ sku) = Raises e"
  shows "\<exists>results. fst (search_all_retailers net sku reqs) = Inr results \<and>
     \<lparr>Retailer = ''Walmart'', URL = ''https://www.walmart.com/search?q='' @ sku,
       Status = ''Error checking availability''\<rparr> \<in> set results \<and>
     (net (''https://www.amazon.com/s?k='' @ sku) = Response 200 \<and>
      net (''https://www.bestbuy.com/site/searchpage.jsp?st='' @ sku) = Response 200 \<longrightarrow>
      results =
        [\<lparr>Retailer = ''Amazon'', URL = ''https://www.amazon.com/s?k='' @ sku,
           Status = ''Available''\<rparr>,
         \<lparr>Retailer = ''Walmart'', URL = ''https://www.walmart.com/search?q='' @ sku,
           Status = ''Error checking availability''\<rparr>,
         \<lparr>Retailer = ''Best Buy'',
           URL = ''https://www.bestbuy.com/site/searchpage.jsp?st='' @ sku,
           Status = ''Available''\<rparr>])"
  using assms
  by (simp add: search_all_retailers_unfold search_retailer_known map_of_retailers
      split: http_outcome.split)

theorem search_all_retailers_partial_failure_witness:
  "net_walmart_times_out ''https://www.amazon.com/s?k=W1'' = Response 200 \<and>
   net_walmart_times_out ''https://www.walmart.com/search?q=W1'' = Raises Timeout \<and>
   net_walmart_times_out ''https://www.bestbuy.com/site/searchpage.jsp?st=W1'' = Response 200 \<and>
   fst (search_all_retailers net_walmart_times_out ''W1'' []) =
     Inr [\<lparr>Retailer = ''Amazon'', URL = ''https://www.amazon.com/s?k=W1'',
            Status = ''Available''\<rparr>,
          \<lparr>Retailer = ''Walmart'', URL = ''https://www.walmart.com/search?q=W1'',
            Status = ''Error checking availability''\<rparr>,
          \<lparr>Retailer = ''Best Buy'',
            URL = ''https://www.bestbuy.com/site/searchpage.jsp?st=W1'',
            Status = ''Available''\<rparr>]"
proof -
  have a: "net_walmart_times_out (''https://www.amazon.com/s?k='' @ ''W1'') = Response 200"
    and w: "net_walmart_times_out (''https://www.walmart.com/search?q='' @ ''W1'') = Raises Timeout"
    and b: "net_walmart_times_out (''https://www.bestbuy.com/site/searchpage.jsp?st='' @ ''W1'') =
        Response 200"
    by (simp_all add: net_walmart_times_out_def)
  from search_all_retailers_partial_failure [of net_walmart_times_out "''W1''" Timeout "[]", OF w] a b
  have "fst (search_all_retailers net_walmart_times_out ''W1'' []) =
     Inr [\<lparr>Retailer = ''Amazon'', URL = ''https://www.amazon.com/s?k='' @ ''W1'',
            Status = ''Available''\<rparr>,
          \<lparr>Retailer = ''Walmart'', URL = ''https://www.walmart.com/search?q='' @ ''W1'',
            Status = ''Error checking availability''\<rparr>,
          \<lparr>Retailer = ''Best Buy'',
            URL = ''https://www.bestbuy.com/site/searchpage.jsp?st='' @ ''W1'',
            Status = ''Available''\<rparr>]"
    by blast
  with a w b show ?thesis by simp
qed

text \<open>
  Claim C4. The handler of Search Prices gives the same page and issues the same requests
  whatever the multiselect holds: it passes only the SKU on, and a search with a SKU requests
  the three fixed URLs, those of Amazon, Walmart and Best Buy, and nothing else.
\<close>

theorem search_prices_ignores_selection:
  "search_prices clicked net sku_input selection1 reqs =
     search_prices clicked net sku_input selection2 reqs \<and>
   snd (search_prices True net sku_input selection1 reqs) =
     (if sku_input = [] then reqs
      else reqs @ [''https://www.amazon.com/s?k='' @ sku_input,
                   ''https://www.walmart.com/search?q='' @ sku_input,
                   ''https://www.bestbuy.com/site/searchpage.jsp?st='' @ sku_input])"
  by (simp add: search_prices_def search_all_retailers_unfold split: sum.split)

text \<open>
  Claim C5. With the empty identifier the handler of Search Prices shows the error message
  and nothing else, and the list of requests is the one it started with: no request is issued
  and no result is produced.
\<close>

theorem search_prices_empty_sku:
  "search_prices True net [] retailers_to_search reqs =
     (Inr [St_error ''Please enter a SKU number''], reqs)"
  by (simp add: search_prices_def)

section \<open>Properties of the ledger\<close>

text \<open>The model of floats on known values: 0.1, 9.99 and 10.49 as binary64 numbers.\<close>

lemma to_double_tenth: "to_double (1 / 10) = 3602879701896397 / 36028797018963968"
  by code_simp

lemma widget_prices:
  "to_double (999 / 100) = 5623870034678907 / 562949953421312"
  "to_double (1049 / 100) = 5905345011389563 / 562949953421312"
  by code_simp+

lemma widget_difference:
  "py_round (float_sub (to_double (999 / 100)) (to_double (1049 / 100))) 2 = - 50 / 100"
  by code_simp

lemma add_product_ok:
  "product_name \<noteq> [] \<Longrightarrow> competitor \<noteq> [] \<Longrightarrow>
   add_product True product_name sku your_price competitor competitor_price today products =
     (products @ [new_product product_name sku your_price competitor competitor_price today],
      [St_success ''Product added successfully!''])"
  by (simp add: add_product_def)

lemma add_products_valid:
  "\<forall>c \<in> set calls. add_call_valid c \<Longrightarrow>
   add_products calls products = products @ map product_of_call calls"
  by (induction calls arbitrary: products)
    (simp_all add: add_call_valid_def product_of_call_def add_product_ok)

text \<open>
  Rounding to the nearest integer, ties to the even one, and the error of one rounding to
  binary64: half a unit of the last bit, which is at most the value times \<open>2 powi (- 53)\<close>, or
  \<open>2 powi (- 1075)\<close> for the smallest values.
\<close>

lemma round_half_even_near: "\<bar>of_int (round_half_even q) - q\<bar> \<le> 1 / 2"
proof -
  have "of_int \<lfloor>q\<rfloor> \<le> q" "q < of_int \<lfloor>q\<rfloor> + 1" by linarith+
  then show ?thesis by (auto simp: round_half_even_def Let_def)
qed

lemma round_half_even_tie:
  assumes "\<bar>of_int (round_half_even q) - q\<bar> = 1 / 2"
  shows "even (round_half_even q)"
proof -
  have "of_int \<lfloor>q\<rfloor> \<le> q" "q < of_int \<lfloor>q\<rfloor> + 1" by linarith+
  with assms show ?thesis
    by (auto simp: round_half_even_def Let_def split: if_splits)
qed

lemma ilog2_lower:
  assumes "0 < q"
  shows "2 powi (ilog2 q) \<le> q"
proof -
  obtain p d where pd: "quotient_of q = (p, d)" by (cases "quotient_of q")
  then have d: "0 < d" and q: "q = of_int p / of_int d"
    by (auto simp: quotient_of_denom_pos quotient_of_div)
  with assms have p: "0 < p" by (simp add: zero_less_divide_iff)
  define e where "e = bitlen p - bitlen d"
  show ?thesis
  proof (cases "2 powi e \<le> q")
    case True
    then show ?thesis by (simp add: ilog2_def pd e_def Let_def)
  next
    case False
    have lo: "(2::rat) ^ nat (bitlen p - 1) \<le> of_int p"
      using bitlen_bounds [OF p] by (metis of_int_le_iff of_int_numeral of_int_power)
    have hi: "of_int d < (2::rat) ^ nat (bitlen d)"
      using bitlen_bounds [OF d] by (metis of_int_less_iff of_int_numeral of_int_power)
    have bp: "0 < bitlen p" and bd: "0 < bitlen d"
      using p d bitlen_eq_zero_iff bitlen_nonneg by (smt (verit))+
    have e1: "e - 1 = (bitlen p - 1) - bitlen d" by (simp add: e_def)
    have "(2::rat) powi (e - 1) = 2 powi (bitlen p - 1) / 2 powi (bitlen d)"
      unfolding e1 by (rule power_int_diff) simp
    also have "\<dots> = 2 ^ nat (bitlen p - 1) / 2 ^ nat (bitlen d)"
      using bp bd by (simp add: power_int_def)
    also have "\<dots> \<le> of_int p / 2 ^ nat (bitlen d)"
      using lo by (simp add: divide_right_mono)
    also have "\<dots> \<le> of_int p / of_int d"
      using hi p d by (simp add: frac_le)
    finally have "2 powi (e - 1) \<le> q" by (simp add: q)
    with False show ?thesis by (simp add: ilog2_def pd e_def Let_def)
  qed
qed

lemma to_double_error:
  "\<bar>to_double q - q\<bar> \<le> max (\<bar>q\<bar> / 2 ^ 53) (1 / 2 ^ 1075)"
proof (cases "q = 0")
  case True
  then show ?thesis by (simp add: to_double_def)
next
  case False
  define e where "e = max (ilog2 \<bar>q\<bar> - 52) (- 1074)"
  define P :: rat where "P = 2 powi e"
  define r :: rat where "r = of_int (round_half_even (q / P))"
  have pos: "0 < P" by (simp add: P_def)
  have td: "to_double q = r * P"
    using False by (simp add: to_double_def e_def P_def r_def Let_def)
  have near: "\<bar>r - q / P\<bar> \<le> 1 / 2"
    unfolding r_def by (rule round_half_even_near)
  have "r * P - q = (r - q / P) * P"
    using pos by (simp add: left_diff_distrib)
  then have "\<bar>r * P - q\<bar> = \<bar>r - q / P\<bar> * P"
    using pos by (simp add: abs_mult)
  also have "\<dots> \<le> 1 / 2 * P"
    using near pos by (intro mult_right_mono) simp_all
  finally have err: "\<bar>to_double q - q\<bar> \<le> 2 powi e / 2"
    by (simp add: td P_def)
  have "2 powi e / 2 \<le> max (\<bar>q\<bar> / 2 ^ 53) (1 / 2 ^ 1075)"
  proof (cases "ilog2 \<bar>q\<bar> - 52 \<le> - 1074")
    case True
    then have "e = - 1074" by (simp add: e_def)
    then have "(2::rat) powi e / 2 = 1 / 2 ^ 1075"
      by (simp add: power_int_minus field_simps)
    then show ?thesis by simp
  next
    case False
    then have e: "e = ilog2 \<bar>q\<bar> - 52" by (simp add: e_def)
    have "(2::rat) powi e / 2 = 2 powi (ilog2 \<bar>q\<bar>) / 2 ^ 53"
      by (simp add: e power_int_diff)
    also have "\<dots> \<le> \<bar>q\<bar> / 2 ^ 53"
      using ilog2_lower [of "\<bar>q\<bar>"] \<open>q \<noteq> 0\<close> by (simp add: divide_right_mono)
    finally show ?thesis by simp
  qed
  with err show ?thesis by linarith
qed

text \<open>
  Two differences on which the rounding does work. The difference of 1.375 and 0.25 is the tie
  1.125, which rounds to the even 1.12. The float difference of 1.375 and \<open>2 powi (- 60)\<close> is
  1.375 again, so the program rounds a tie, to 1.38, where the exact difference would round
  to 1.37: the value rounded is the float difference.
\<close>

lemma tie_difference:
  "py_round (float_sub (11 / 8) (1 / 4)) 2 = 1261007895663739 / 1125899906842624"
  by code_simp

lemma inexact_difference:
  "float_sub (11 / 8) (1 / 2 ^ 60) = 11 / 8 \<and>
   py_round (float_sub (11 / 8) (1 / 2 ^ 60)) 2 = to_double (138 / 100) \<and>
   round_half_even ((11 / 8 - 1 / 2 ^ 60) * 10 ^ 2) = 137"
  by code_simp

text \<open>
  Claim C6. For prices that are not negative, an add that succeeds (the product name and the
  competitor are not empty) creates one record; its two price fields are the prices entered and
  its price difference is \<open>round(your_price - competitor_price, 2)\<close> of those two fields, in
  Python's float arithmetic. That value is the float nearest to \<open>k / 100\<close>, where \<open>k / 100\<close> is
  the number of two decimals nearest to the float difference of the prices, the even \<open>k\<close> on a
  tie; the float difference is the exact difference up to one rounding, so \<open>k / 100\<close> is
  within half a cent and one float rounding of the exact difference.
\<close>

theorem add_product_price_difference:
  assumes "product_name \<noteq> []" and "competitor \<noteq> []"
    and "0 \<le> your_price" and "0 \<le> competitor_price"
  shows "\<exists>p k. fst (add_product True product_name sku your_price competitor competitor_price
                       today products) = products @ [p] \<and>
           Your_Price p = your_price \<and> Competitor_Price p = competitor_price \<and>
           Price_Difference p = py_round (float_sub (Your_Price p) (Competitor_Price p)) 2 \<and>
           Price_Difference p = to_double (of_int k / 100) \<and>
           \<bar>of_int k / 100 - float_sub your_price competitor_price\<bar> \<le> 1 / 200 \<and>
           (\<bar>of_int k / 100 - float_sub your_price competitor_price\<bar> = 1 / 200 \<longrightarrow> even k) \<and>
           \<bar>float_sub your_price competitor_price - (your_price - competitor_price)\<bar>
             \<le> max (\<bar>your_price - competitor_price\<bar> / 2 ^ 53) (1 / 2 ^ 1075) \<and>
           \<bar>of_int k / 100 - (your_price - competitor_price)\<bar>
             \<le> 1 / 200 + max (\<bar>your_price - competitor_price\<bar> / 2 ^ 53) (1 / 2 ^ 1075)"
proof -
  define d where "d = float_sub your_price competitor_price"
  define k where "k = round_half_even (d * 10 ^ 2)"
  define p where
    "p = new_product product_name sku your_price competitor competitor_price today"
  have near: "\<bar>of_int k - d * 100\<bar> \<le> 1 / 2"
    using round_half_even_near [of "d * 10 ^ 2"] by (simp add: k_def)
  have cents: "\<bar>of_int k / 100 - d\<bar> \<le> 1 / 200"
    using near by linarith
  have tie: "even k" if "\<bar>of_int k / 100 - d\<bar> = 1 / 200"
  proof -
    from that have "\<bar>of_int k - d * 100\<bar> = 1 / 2" by linarith
    then show ?thesis
      using round_half_even_tie [of "d * 10 ^ 2"] by (simp add: k_def)
  qed
  have sub: "\<bar>d - (your_price - competitor_price)\<bar>
      \<le> max (\<bar>your_price - competitor_price\<bar> / 2 ^ 53) (1 / 2 ^ 1075)"
    unfolding d_def float_sub_def by (rule to_double_error)
  have total: "\<bar>of_int k / 100 - (your_price - competitor_price)\<bar>
      \<le> 1 / 200 + max (\<bar>your_price - competitor_price\<bar> / 2 ^ 53) (1 / 2 ^ 1075)"
    using cents sub by linarith
  have ledger: "fst (add_product True product_name sku your_price competitor competitor_price
      today products) = products @ [p]"
    using assms(1,2) by (simp add: add_product_def p_def)
  have fields: "Your_Price p = your_price" "Competitor_Price p = competitor_price"
    "Price_Difference p = py_round d 2"
    by (simp_all add: p_def new_product_def d_def)
  have stored: "Price_Difference p = to_double (of_int k / 100)"
    by (simp add: fields py_round_def k_def)
  show ?thesis
    using ledger fields stored cents tie sub total unfolding d_def by blast
qed

theorem add_product_price_difference_witness:
  "''Widget'' \<noteq> [] \<and> ''ACME'' \<noteq> [] \<and> (0::rat) \<le> 11 / 8 \<and> (0::rat) \<le> 1 / 4 \<and>
   (\<exists>p. fst (add_product True ''Widget'' ''W1'' (11 / 8) ''ACME'' (1 / 4) ''2024-01-15'' []) = [p] \<and>
        Price_Difference p = 1261007895663739 / 1125899906842624)"
proof -
  have n: "''Widget'' \<noteq> []" and c: "''ACME'' \<noteq> []" by simp_all
  have y: "(0::rat) \<le> 11 / 8" and k: "(0::rat) \<le> 1 / 4" by simp_all
  from add_product_price_difference [OF n c y k, of "''W1''" "''2024-01-15''" "[]"]
  obtain p where ledger: "fst (add_product True ''Widget'' ''W1'' (11 / 8) ''ACME'' (1 / 4)
        ''2024-01-15'' []) = [] @ [p]"
    and yp: "Your_Price p = 11 / 8" and cp: "Competitor_Price p = 1 / 4"
    and pd: "Price_Difference p = py_round (float_sub (Your_Price p) (Competitor_Price p)) 2"
    by blast
  have "Price_Difference p = 1261007895663739 / 1125899906842624"
    by (simp only: pd yp cp tie_difference)
  with ledger have "\<exists>p. fst (add_product True ''Widget'' ''W1'' (11 / 8) ''ACME'' (1 / 4)
        ''2024-01-15'' []) = [p] \<and> Price_Difference p = 1261007895663739 / 1125899906842624"
    by auto
  with n c y k show ?thesis by blast
qed

text \<open>
  Claim C7. The ledger that holds the one record Widget, W1, 9.99, ACME, 10.49 is exported as
  the header row and one data row, and the price difference field of that row is the number
  \<open>-0.50\<close>: the float difference of 9.99 and 10.49 is exactly one half below zero.
\<close>

theorem export_widget_price_difference:
  "download_button (add_products [widget_call] []) =
     Some [csv_header,
           [Text ''Widget'', Text ''W1'', Number (to_double (999 / 100)), Text ''ACME'',
            Number (to_double (1049 / 100)), Number (- 50 / 100), Text ''2024-01-15'']]"
  by (simp add: download_button_def to_csv_def csv_row_def widget_call_def add_product_ok
      new_product_def widget_difference)

text \<open>
  Claim C8. After \<open>N\<close> adds that succeed, from the empty ledger, the ledger has \<open>N\<close> records,
  and they are the records of the calls in the order of the calls.
\<close>

theorem add_products_length_and_order:
  assumes "\<forall>c \<in> set calls. add_call_valid c"
  shows "length (add_products calls []) = length calls \<and>
         add_products calls [] = map product_of_call calls"
  using add_products_valid [OF assms, of "[]"] by simp

theorem add_products_length_and_order_witness:
  "add_call_valid widget_call \<and> add_call_valid gadget_call \<and>
   length (add_products [widget_call, gadget_call] []) = 2 \<and>
   map Product_Name (add_products [widget_call, gadget_call] []) = [''Widget'', ''Gadget'']"
proof -
  have v: "\<forall>c \<in> set [widget_call, gadget_call]. add_call_valid c"
    by (simp add: add_call_valid_def widget_call_def gadget_call_def)
  show ?thesis
    using v add_products_length_and_order [OF v]
    by (simp add: product_of_call_def new_product_def widget_call_def gadget_call_def)
qed

text \<open>
  Claim C9. An add that succeeds gives the ledger it found, every record of it unchanged and
  in place, followed by the new record.
\<close>

theorem add_product_appends:
  assumes "product_name \<noteq> []" and "competitor \<noteq> []"
  shows "fst (add_product True product_name sku your_price competitor competitor_price today
                products) =
           products @ [new_product product_name sku your_price competitor competitor_price today]"
  using assms by (simp add: add_product_ok)

theorem add_product_appends_witness:
  "''Gadget'' \<noteq> [] \<and> ''ACME'' \<noteq> [] \<and>
   fst (add_product True ''Gadget'' ''G7'' 5 ''ACME'' 4 ''2024-01-16''
          [product_of_call widget_call]) =
     [product_of_call widget_call, new_product ''Gadget'' ''G7'' 5 ''ACME'' 4 ''2024-01-16'']"
proof -
  have n: "''Gadget'' \<noteq> []" and c: "''ACME'' \<noteq> []" by simp_all
  show ?thesis
    using n c
      add_product_appends [OF n c, of "''G7''" 5 4 "''2024-01-16''" "[product_of_call widget_call]"]
    by simp
qed

text \<open>
  Claim C10. With an empty product name, or an empty competitor, a click on Add Product
  leaves the ledger as it was; the handler then shows nothing at all, no validation message.
\<close>

theorem add_product_missing_field:
  "add_product True [] sku your_price competitor competitor_price today products =
     (products, []) \<and>
   add_product True product_name sku your_price [] competitor_price today products =
     (products, [])"
  by (simp add: add_product_def)

end
